theory Spec2Isabelle
  imports Complex_Main
begin

section \<open>Python values and exceptions\<close>

text \<open>
  The scouting service is Python. Its \<open>float\<close> values are modelled as \<open>real\<close> numbers
  (rounding is not modelled), its unbounded \<open>int\<close> values as \<open>int\<close>, and every exception
  the modelled code can raise is a value of type \<open>error\<close>, returned as \<open>Inl\<close>.
\<close>

datatype error =
  ValidationError | KeyError | ZeroDivisionError | TypeError | IndexError | ValueError | DatabaseError

text \<open>Values of fields and dictionaries typed \<open>Any\<close> or \<open>Dict[str, Any]\<close> in the source.\<close>

datatype pyval =
    PyFloat real
  | PyInt int
  | PyStr string
  | PyList "pyval list"
  | PyDict "(string \<times> pyval) list"

type_synonym pydict = "(string \<times> pyval) list"

text \<open>Sequencing of computations that may raise: the first exception ends the computation.\<close>

definition bind_err :: "error + 'a \<Rightarrow> ('a \<Rightarrow> error + 'b) \<Rightarrow> error + 'b" where
  "bind_err m f = (case m of Inl e \<Rightarrow> Inl e | Inr x \<Rightarrow> f x)"

text \<open>
  \<open>d[k]\<close> raises \<open>KeyError\<close> on a missing key; arithmetic on a value that is not a
  number raises \<open>TypeError\<close>.
\<close>

definition py_getitem :: "pydict \<Rightarrow> string \<Rightarrow> error + pyval" where
  "py_getitem d k = (case map_of d k of None \<Rightarrow> Inl KeyError | Some v \<Rightarrow> Inr v)"

definition py_num :: "pyval \<Rightarrow> error + real" where
  "py_num v = (case v of PyFloat x \<Rightarrow> Inr x | PyInt i \<Rightarrow> Inr (real_of_int i) | _ \<Rightarrow> Inl TypeError)"

section \<open>numpy helpers\<close>

text \<open>
  \<open>np.mean\<close> and \<open>np.std\<close> (population standard deviation). The source calls them on
  non-empty lists only; on the empty list numpy answers \<open>nan\<close>, which is not modelled.
\<close>

definition np_mean :: "real list \<Rightarrow> real" where
  "np_mean xs = sum_list xs / real (length xs)"

definition np_std :: "real list \<Rightarrow> real" where
  "np_std xs = sqrt (np_mean (map (\<lambda>x. (x - np_mean xs)\<^sup>2) xs))"

text \<open>The slice \<open>xs[-n:]\<close>: the last \<open>n\<close> elements, or all of \<open>xs\<close> when it is shorter.\<close>

definition last_n :: "nat \<Rightarrow> 'a list \<Rightarrow> 'a list" where
  "last_n n xs = drop (length xs - n) xs"

section \<open>Player statistics (models/player\_stats.py)\<close>

text \<open>
  Field names that two classes share carry a short prefix of their class, since record
  fields live in one name space.
\<close>

record GameStats =
  game_id :: string
  gs_player_id :: string
  gs_game_date :: int
  opponent :: string
  minutes_played :: real
  points :: int
  rebounds :: int
  assists :: int
  steals :: int
  blocks :: int
  turnovers :: int
  field_goals_made :: int
  field_goals_attempted :: int
  three_pointers_made :: int
  three_pointers_attempted :: int
  free_throws_made :: int
  free_throws_attempted :: int
  personal_fouls :: int
  plus_minus :: "int option"

text \<open>The \<open>Field\<close> constraints of \<open>GameStats\<close>, checked by pydantic on construction.\<close>

definition GameStats_valid :: "GameStats \<Rightarrow> bool" where
  "GameStats_valid g \<longleftrightarrow>
     0 \<le> minutes_played g \<and> minutes_played g \<le> 48 \<and> 0 \<le> points g \<and> 0 \<le> rebounds g \<and>
     0 \<le> assists g \<and> 0 \<le> steals g \<and> 0 \<le> blocks g \<and> 0 \<le> turnovers g \<and>
     0 \<le> field_goals_made g \<and> 0 \<le> field_goals_attempted g \<and>
     0 \<le> three_pointers_made g \<and> 0 \<le> three_pointers_attempted g \<and>
     0 \<le> free_throws_made g \<and> 0 \<le> free_throws_attempted g \<and> 0 \<le> personal_fouls g"

definition efficiency_rating :: "GameStats \<Rightarrow> int" where
  "efficiency_rating g =
     points g + rebounds g + assists g + steals g + blocks g
     - (field_goals_attempted g - field_goals_made g)
     - (free_throws_attempted g - free_throws_made g)
     - turnovers g"

datatype PlayerPosition = PG | SG | SF | PF | C

record SeasonStats =
  ss_player_id :: string
  season :: string
  team :: string
  ss_position :: PlayerPosition
  games_played :: int
  games_started :: int
  minutes_per_game :: real
  points_per_game :: real
  rebounds_per_game :: real
  assists_per_game :: real
  steals_per_game :: real
  blocks_per_game :: real
  turnovers_per_game :: real
  field_goal_percentage :: real
  three_point_percentage :: real
  free_throw_percentage :: real
  player_efficiency_rating :: real
  true_shooting_percentage :: real
  usage_rate :: real

text \<open>
  The player profile is a plain dictionary read with \<open>get(key, default)\<close>; a missing
  key is \<open>None\<close> here.
\<close>

record player_profile =
  profile_player_id :: "string option"
  years_pro :: "int option"
  profile_position :: "string option"

record PlayerPerformanceMetrics =
  pm_player_id :: string
  evaluation_date :: int
  recent_form_score :: real
  season_consistency :: real
  clutch_performance :: real
  injury_risk :: real
  market_momentum :: real
  breakout_potential :: real
  veteran_stability :: real

definition in_range :: "real \<Rightarrow> real \<Rightarrow> real \<Rightarrow> bool" where
  "in_range lo hi x \<longleftrightarrow> lo \<le> x \<and> x \<le> hi"

definition PlayerPerformanceMetrics_valid :: "PlayerPerformanceMetrics \<Rightarrow> bool" where
  "PlayerPerformanceMetrics_valid m \<longleftrightarrow>
     in_range 0 100 (recent_form_score m) \<and> in_range 0 100 (season_consistency m) \<and>
     in_range 0 100 (clutch_performance m) \<and> in_range 0 100 (injury_risk m) \<and>
     in_range 0 100 (market_momentum m) \<and> in_range 0 100 (breakout_potential m) \<and>
     in_range 0 100 (veteran_stability m)"

text \<open>
  Constructing a pydantic model validates its fields and raises \<open>ValidationError\<close> when a
  constraint fails.
\<close>

definition PlayerPerformanceMetrics_new :: "PlayerPerformanceMetrics \<Rightarrow> error + PlayerPerformanceMetrics" where
  "PlayerPerformanceMetrics_new m = (if PlayerPerformanceMetrics_valid m then Inr m else Inl ValidationError)"

section \<open>PerformanceAnalyzer (analysis/performance\_analyzer.py)\<close>

definition default_weights :: "nat \<Rightarrow> real list" where
  "default_weights n = map (\<lambda>i. 1 / (real i + 1)) [0..<n]"

text \<open>The composite score of one game, capped at 100 from above only.\<close>

definition game_score :: "GameStats \<Rightarrow> real" where
  "game_score game =
     (let efficiency = real_of_int (efficiency_rating game);
          minutes_factor = min (minutes_played game / 36) 1;
          score = (real_of_int (points game) / 30 * 25 +
                   real_of_int (rebounds game) / 15 * 15 +
                   real_of_int (assists game) / 12 * 15 +
                   real_of_int (steals game) / 4 * 10 +
                   real_of_int (blocks game) / 4 * 10 +
                   efficiency / 30 * 25) * minutes_factor
      in min score 100)"

text \<open>
  The loop over \<open>enumerate(recent_games)\<close>: \<open>weights[i]\<close> raises \<open>IndexError\<close> when
  the weight list is shorter than the game list.
\<close>

fun weighted_scores :: "GameStats list \<Rightarrow> real list \<Rightarrow> error + real list" where
  "weighted_scores [] ws = Inr []"
| "weighted_scores (game # games) [] = Inl IndexError"
| "weighted_scores (game # games) (w # ws) =
     (case weighted_scores games ws of
        Inl e \<Rightarrow> Inl e
      | Inr scores \<Rightarrow> Inr (game_score game * w # scores))"

definition calculate_recent_form_score :: "GameStats list \<Rightarrow> real list option \<Rightarrow> error + real" where
  "calculate_recent_form_score recent_games weights =
     (if recent_games = [] then Inr 50
      else
        let ws = (case weights of None \<Rightarrow> default_weights (length recent_games) | Some w \<Rightarrow> w);
            total_weight = sum_list ws
        in if ws \<noteq> [] \<and> total_weight = 0 then Inl ZeroDivisionError
           else (case weighted_scores recent_games (map (\<lambda>w. w / total_weight) ws) of
                   Inl e \<Rightarrow> Inl e
                 | Inr scores \<Rightarrow> Inr (sum_list scores)))"

definition coefficient_of_variation :: "real list \<Rightarrow> real" where
  "coefficient_of_variation values =
     (if values = [] \<or> np_mean values = 0 then 1 else np_std values / np_mean values)"

definition calculate_season_consistency :: "SeasonStats \<Rightarrow> GameStats list \<Rightarrow> real" where
  "calculate_season_consistency season_stats recent_games =
     (if recent_games = [] \<or> length recent_games < 5 then 50
      else
        let points_cv = coefficient_of_variation (map (\<lambda>g. real_of_int (points g)) recent_games);
            rebounds_cv = coefficient_of_variation (map (\<lambda>g. real_of_int (rebounds g)) recent_games);
            assists_cv = coefficient_of_variation (map (\<lambda>g. real_of_int (assists g)) recent_games);
            avg_cv = (points_cv + rebounds_cv + assists_cv) / 3
        in max 0 (100 - avg_cv * 100))"

text \<open>The scores of the games that carry a plus/minus value.\<close>

fun clutch_scores :: "GameStats list \<Rightarrow> real list" where
  "clutch_scores [] = []"
| "clutch_scores (game # games) =
     (case plus_minus game of
        None \<Rightarrow> clutch_scores games
      | Some pm \<Rightarrow> max 0 (min 100 (50 + real_of_int pm * 2)) # clutch_scores games)"

definition calculate_clutch_performance :: "GameStats list \<Rightarrow> real" where
  "calculate_clutch_performance recent_games =
     (if recent_games = [] then 50
      else let scores = clutch_scores recent_games
           in if scores \<noteq> [] then np_mean scores else 50)"

definition calculate_breakout_potential :: "player_profile \<Rightarrow> SeasonStats \<Rightarrow> real" where
  "calculate_breakout_potential profile season_stats =
     (let yp = (case years_pro profile of None \<Rightarrow> 5 | Some y \<Rightarrow> y);
          s0 = 50;
          s1 = (if yp \<le> 2 then s0 + 20 else if yp \<le> 4 then s0 + 10 else if yp \<ge> 10 then s0 - 10 else s0);
          s2 = (if usage_rate season_stats > 0.25 then s1 + 15
                else if usage_rate season_stats < 0.15 then s1 - 10 else s1);
          s3 = (if player_efficiency_rating season_stats > 20 then s2 + 10
                else if player_efficiency_rating season_stats < 15 then s2 - 10 else s2);
          s4 = (if minutes_per_game season_stats > 30 then s3 + 10
                else if minutes_per_game season_stats < 20 then s3 - 15 else s3)
      in max 0 (min 100 s4))"

definition calculate_veteran_stability :: "player_profile \<Rightarrow> SeasonStats \<Rightarrow> real" where
  "calculate_veteran_stability profile season_stats =
     (let yp = (case years_pro profile of None \<Rightarrow> 5 | Some y \<Rightarrow> y);
          s0 = 50;
          s1 = (if yp \<ge> 8 then s0 + 20 else if yp \<ge> 5 then s0 + 10 else s0 - 10);
          s2 = (if player_efficiency_rating season_stats > 18 then s1 + 15
                else if player_efficiency_rating season_stats < 12 then s1 - 15 else s1);
          s3 = (if games_played season_stats > 70 then s2 + 10
                else if games_played season_stats < 50 then s2 - 20 else s2)
      in max 0 (min 100 s3))"

definition estimate_injury_risk :: "player_profile \<Rightarrow> SeasonStats \<Rightarrow> GameStats list \<Rightarrow> real" where
  "estimate_injury_risk profile season_stats recent_games =
     (let yp = (case years_pro profile of None \<Rightarrow> 5 | Some y \<Rightarrow> y);
          r0 = 20;
          r1 = (if yp \<ge> 12 then r0 + 20 else if yp \<ge> 8 then r0 + 10 else r0);
          r2 = (if minutes_per_game season_stats > 36 then r1 + 15
                else if minutes_per_game season_stats > 32 then r1 + 5 else r1);
          r3 = (if games_played season_stats < 60 then r2 + 20
                else if games_played season_stats < 70 then r2 + 10 else r2);
          position = (case profile_position profile of None \<Rightarrow> ''PG'' | Some p \<Rightarrow> p);
          r4 = (if position \<in> set [''C'', ''PF''] then r3 + 10 else r3)
      in max 0 (min 100 r4))"

text \<open>\<open>now\<close> stands for the clock read by \<open>datetime.now()\<close>.\<close>

definition analyze_player_performance ::
  "player_profile \<Rightarrow> SeasonStats \<Rightarrow> GameStats list \<Rightarrow> int \<Rightarrow> error + PlayerPerformanceMetrics" where
  "analyze_player_performance profile season_stats recent_games now =
     (case calculate_recent_form_score recent_games None of
        Inl e \<Rightarrow> Inl e
      | Inr recent_form \<Rightarrow>
          PlayerPerformanceMetrics_new
            \<lparr> pm_player_id = (case profile_player_id profile of None \<Rightarrow> '''' | Some p \<Rightarrow> p),
              evaluation_date = now,
              recent_form_score = recent_form,
              season_consistency = calculate_season_consistency season_stats recent_games,
              clutch_performance = calculate_clutch_performance recent_games,
              injury_risk = estimate_injury_risk profile season_stats recent_games,
              market_momentum = 50,
              breakout_potential = calculate_breakout_potential profile season_stats,
              veteran_stability = calculate_veteran_stability profile season_stats \<rparr>)"

text \<open>
  \<open>predict_next_game_performance\<close> returns a dictionary with four keys. Its averages are
  numpy floats, so dividing by zero does not raise: the quotient is infinite or \<open>nan\<close>,
  written \<open>None\<close> here. A confidence quotient that is not finite leaves
  \<open>max(0.3, \<dots>)\<close> at 0.3.
\<close>

definition np_divide :: "real \<Rightarrow> real \<Rightarrow> real option" where
  "np_divide x y = (if y = 0 then None else Some (x / y))"

record next_game_prediction =
  predicted_points :: "real option"
  predicted_rebounds :: real
  predicted_assists :: "real option"
  confidence :: real

definition predict_next_game_performance ::
  "player_profile \<Rightarrow> SeasonStats \<Rightarrow> GameStats list \<Rightarrow> real \<Rightarrow> next_game_prediction" where
  "predict_next_game_performance profile season_stats recent_games opponent_defense_rating =
     (if recent_games = [] then
        \<lparr> predicted_points = Some (points_per_game season_stats),
          predicted_rebounds = rebounds_per_game season_stats,
          predicted_assists = Some (assists_per_game season_stats),
          confidence = 0.5 \<rparr>
      else
        let recent_points = np_mean (map (\<lambda>g. real_of_int (points g)) (last_n 5 recent_games));
            recent_rebounds = np_mean (map (\<lambda>g. real_of_int (rebounds g)) (last_n 5 recent_games));
            recent_assists = np_mean (map (\<lambda>g. real_of_int (assists g)) (last_n 5 recent_games));
            league_avg_defense = 112;
            difficulty_factor = opponent_defense_rating / league_avg_defense;
            points_std = np_std (map (\<lambda>g. real_of_int (points g)) (last_n 10 recent_games))
        in \<lparr> predicted_points = np_divide recent_points difficulty_factor,
             predicted_rebounds = recent_rebounds,
             predicted_assists = np_divide recent_assists (difficulty_factor * 0.5),
             confidence = (case np_divide points_std recent_points of
                             None \<Rightarrow> 0.3
                           | Some q \<Rightarrow> max 0.3 (1 - q)) \<rparr>)"

section \<open>Moment analysis models (models/moment\_analysis.py)\<close>

datatype MomentType =
  DUNK | THREE_POINTER | ASSIST | STEAL | BLOCK | REBOUND | GAME_WINNER | MILESTONE

text \<open>The string value of an enum member (\<open>moment_type.value\<close>).\<close>

fun MomentType_value :: "MomentType \<Rightarrow> string" where
  "MomentType_value DUNK = ''dunk''"
| "MomentType_value THREE_POINTER = ''three_pointer''"
| "MomentType_value ASSIST = ''assist''"
| "MomentType_value STEAL = ''steal''"
| "MomentType_value BLOCK = ''block''"
| "MomentType_value REBOUND = ''rebound''"
| "MomentType_value GAME_WINNER = ''game_winner''"
| "MomentType_value MILESTONE = ''milestone''"

record MomentAnalysisRequest =
  moment_id :: string
  player_id :: string
  moment_type :: MomentType
  game_date :: int
  serial_number :: int
  current_price :: real
  marketplace_id :: string

definition MomentAnalysisRequest_valid :: "MomentAnalysisRequest \<Rightarrow> bool" where
  "MomentAnalysisRequest_valid r \<longleftrightarrow> current_price r > 0"

text \<open>
  The factor classes: \<open>ValuationFactor\<close> holds the shared fields, and each subclass adds
  its own, kept here in \<open>details\<close>. The field \<open>value\<close> is named \<open>fvalue\<close>.
  Entries of price histories and comparable sales are plain dictionaries in the source.
\<close>

datatype factor_details =
    PlayerPerformanceDetails
      (recent_games_performance: pydict) (season_performance: pydict)
      (career_trajectory: pyval) (pf_clutch_performance: real)
  | ScarcityDetails
      (serial_number_rarity: real) (moment_type_rarity: real)
      (player_moment_count: int) (sf_total_circulation: int)
  | MarketTrendDetails
      (price_momentum: real) (volume_trend: real) (market_sentiment: real)
      (mt_comparable_sales: "pydict list")
  | SocialSentimentDetails
      (social_mentions: int) (sentiment_score: real) (viral_potential: real)
      (influencer_mentions: int)

record ValuationFactor =
  factor_type :: string
  weight :: real
  fvalue :: real
  description :: string
  impact :: real
  details :: factor_details

text \<open>The constraints of the base class: \<open>weight\<close> in [0,1] and \<open>impact\<close> in [-100,100].\<close>

definition ValuationFactor_base_valid :: "real \<Rightarrow> real \<Rightarrow> bool" where
  "ValuationFactor_base_valid w i \<longleftrightarrow> in_range 0 1 w \<and> in_range (-100) 100 i"

text \<open>
  \<open>PlayerPerformanceFactor(...)\<close>. The fields \<open>recent_games_performance\<close> and
  \<open>season_performance\<close> are declared \<open>Dict[str, Any]\<close>: a value that is not a dictionary
  fails validation. \<open>career_trajectory\<close> is declared \<open>str\<close> and takes a string only.
  \<open>clutch_performance\<close> is bounded to [0,1].
\<close>

definition PlayerPerformanceFactor_new ::
  "string \<Rightarrow> real \<Rightarrow> real \<Rightarrow> string \<Rightarrow> real \<Rightarrow> pyval \<Rightarrow> pyval \<Rightarrow> pyval \<Rightarrow> real
     \<Rightarrow> error + ValuationFactor" where
  "PlayerPerformanceFactor_new ft w v d i recent_games season_perf career clutch =
     (case (recent_games, season_perf) of
        (PyDict rg, PyDict sp) \<Rightarrow>
          if ValuationFactor_base_valid w i \<and> in_range 0 1 clutch
             \<and> (case career of PyStr _ \<Rightarrow> True | _ \<Rightarrow> False)
          then Inr \<lparr> factor_type = ft, weight = w, fvalue = v, description = d, impact = i,
                     details = PlayerPerformanceDetails rg sp career clutch \<rparr>
          else Inl ValidationError
      | _ \<Rightarrow> Inl ValidationError)"

text \<open>\<open>ScarcityFactor(...)\<close>: both rarity fields are bounded to [0,1], both counts to \<open>\<ge> 0\<close>.\<close>

definition ScarcityFactor_new ::
  "string \<Rightarrow> real \<Rightarrow> real \<Rightarrow> string \<Rightarrow> real \<Rightarrow> real \<Rightarrow> real \<Rightarrow> int \<Rightarrow> int
     \<Rightarrow> error + ValuationFactor" where
  "ScarcityFactor_new ft w v d i serial_rarity type_rarity moment_count circulation =
     (if ValuationFactor_base_valid w i \<and> in_range 0 1 serial_rarity \<and> in_range 0 1 type_rarity
         \<and> 0 \<le> moment_count \<and> 0 \<le> circulation
      then Inr \<lparr> factor_type = ft, weight = w, fvalue = v, description = d, impact = i,
                 details = ScarcityDetails serial_rarity type_rarity moment_count circulation \<rparr>
      else Inl ValidationError)"

definition MarketTrendFactor_new ::
  "string \<Rightarrow> real \<Rightarrow> real \<Rightarrow> string \<Rightarrow> real \<Rightarrow> real \<Rightarrow> real \<Rightarrow> real \<Rightarrow> pydict list
     \<Rightarrow> error + ValuationFactor" where
  "MarketTrendFactor_new ft w v d i momentum vol_trend sentiment sales =
     (if ValuationFactor_base_valid w i \<and> in_range (-100) 100 momentum
         \<and> in_range (-100) 100 vol_trend \<and> in_range (-1) 1 sentiment
      then Inr \<lparr> factor_type = ft, weight = w, fvalue = v, description = d, impact = i,
                 details = MarketTrendDetails momentum vol_trend sentiment sales \<rparr>
      else Inl ValidationError)"

definition SocialSentimentFactor_new ::
  "string \<Rightarrow> real \<Rightarrow> real \<Rightarrow> string \<Rightarrow> real \<Rightarrow> int \<Rightarrow> real \<Rightarrow> real \<Rightarrow> int
     \<Rightarrow> error + ValuationFactor" where
  "SocialSentimentFactor_new ft w v d i mentions sentiment viral influencers =
     (if ValuationFactor_base_valid w i \<and> 0 \<le> mentions \<and> in_range (-1) 1 sentiment
         \<and> in_range 0 100 viral \<and> 0 \<le> influencers
      then Inr \<lparr> factor_type = ft, weight = w, fvalue = v, description = d, impact = i,
                 details = SocialSentimentDetails mentions sentiment viral influencers \<rparr>
      else Inl ValidationError)"

record MomentValuation =
  mv_moment_id :: string
  mv_fair_value :: real
  mv_confidence_score :: real
  price_range_low :: real
  price_range_high :: real
  recommendation :: string
  analysis_timestamp :: int

definition MomentValuation_new :: "MomentValuation \<Rightarrow> error + MomentValuation" where
  "MomentValuation_new v =
     (if mv_fair_value v > 0 \<and> in_range 0 1 (mv_confidence_score v)
         \<and> price_range_low v > 0 \<and> price_range_high v > 0
      then Inr v else Inl ValidationError)"

record ValuationResult =
  fair_value :: real
  confidence_score :: real
  vr_recommendation :: string
  upside_potential :: real
  risk_score :: real

definition ValuationResult_valid :: "ValuationResult \<Rightarrow> bool" where
  "ValuationResult_valid v \<longleftrightarrow>
     fair_value v > 0 \<and> in_range 0 1 (confidence_score v) \<and> 0 \<le> upside_potential v
     \<and> in_range 0 1 (risk_score v)"

text \<open>
  The recommendation strings interpolate formatted numbers; the model keeps which message
  it is and the values it prints.
\<close>

datatype recommendation_text =
    StrongBuyOpportunity real real
  | ConsiderSelling real real
  | PositiveFactor string string
  | NegativeFactor string string
  | LowConfidence
  | HighConfidence

record MomentAnalysisResult =
  mar_moment_id :: string
  mar_player_id :: string
  valuation :: ValuationResult
  factors :: "ValuationFactor list"
  player_analysis :: pydict
  market_analysis :: pydict
  risk_assessment :: pydict
  timestamp :: int
  recommendations :: "recommendation_text list"
  analysis_metadata :: pydict

text \<open>
  \<open>MomentAnalysisResult(...)\<close>: \<open>player_id\<close> and \<open>timestamp\<close> are required fields
  (\<open>None\<close> when the call omits them), and \<open>valuation\<close> must be a \<open>ValuationResult\<close>;
  a \<open>MomentValuation\<close> lacks the required \<open>upside_potential\<close> and \<open>risk_score\<close>.
\<close>

datatype valuation_arg = AsValuationResult ValuationResult | AsMomentValuation MomentValuation

definition MomentAnalysisResult_new ::
  "string \<Rightarrow> string option \<Rightarrow> valuation_arg \<Rightarrow> ValuationFactor list \<Rightarrow> pydict \<Rightarrow> pydict \<Rightarrow> pydict
     \<Rightarrow> int option \<Rightarrow> recommendation_text list \<Rightarrow> pydict \<Rightarrow> error + MomentAnalysisResult" where
  "MomentAnalysisResult_new mid pid val fs pa ma ra ts recs meta =
     (case (pid, val, ts) of
        (Some p, AsValuationResult v, Some t) \<Rightarrow>
          if ValuationResult_valid v
          then Inr \<lparr> mar_moment_id = mid, mar_player_id = p, valuation = v, factors = fs,
                     player_analysis = pa, market_analysis = ma, risk_assessment = ra,
                     timestamp = t, recommendations = recs, analysis_metadata = meta \<rparr>
          else Inl ValidationError
      | _ \<Rightarrow> Inl ValidationError)"

section \<open>MomentValuator (analysis/moment\_valuator.py)\<close>

text \<open>The constant dictionary \<open>self.factor_weights\<close>; only its four keys are ever looked up.\<close>

definition factor_weights :: "string \<Rightarrow> real" where
  "factor_weights k =
     (if k = ''player_performance'' then 0.35
      else if k = ''scarcity'' then 0.25
      else if k = ''market_trend'' then 0.20
      else if k = ''social_sentiment'' then 0.20
      else 0)"

subsection \<open>Scarcity\<close>

text \<open>The local \<open>serial_rarity\<close>: first \<open>max(0, \<dots>)\<close>, then \<open>min(100, \<dots>)\<close>.\<close>

definition serial_rarity_of :: "int \<Rightarrow> real" where
  "serial_rarity_of serial = min 100 (max 0 (100 - real_of_int serial / 1000 * 100))"

definition moment_type_scores :: "(string \<times> int) list" where
  "moment_type_scores =
     [(''dunk'', 85), (''game_winner'', 95), (''milestone'', 90), (''three_pointer'', 70),
      (''assist'', 60), (''steal'', 75), (''block'', 80), (''rebound'', 50)]"

text \<open>The local \<open>moment_type_rarity\<close>: \<open>moment_type_scores.get(moment_type.value, 60)\<close>.\<close>

definition moment_type_rarity_of :: "MomentType \<Rightarrow> int" where
  "moment_type_rarity_of t =
     (case map_of moment_type_scores (MomentType_value t) of None \<Rightarrow> 60 | Some s \<Rightarrow> s)"

text \<open>
  The description strings of the factors interpolate formatted numbers; the model keeps
  their fixed leading text.
\<close>

definition calculate_scarcity_factor ::
  "MomentAnalysisRequest \<Rightarrow> int \<Rightarrow> int \<Rightarrow> error + ValuationFactor" where
  "calculate_scarcity_factor moment_request total_moments total_circ =
     (let serial_rarity = serial_rarity_of (serial_number moment_request);
          type_rarity = real_of_int (moment_type_rarity_of (moment_type moment_request));
          player_scarcity = min 100 (max 0 (100 - real_of_int total_moments / 100 * 100));
          circulation_scarcity = min 100 (max 0 (100 - real_of_int total_circ / 10000 * 100));
          overall_scarcity =
            serial_rarity * 0.4 + type_rarity * 0.3 + player_scarcity * 0.2
            + circulation_scarcity * 0.1;
          imp = (overall_scarcity - 50) * 1.5
      in ScarcityFactor_new ''scarcity'' (factor_weights ''scarcity'') (overall_scarcity / 100)
           ''Scarcity analysis'' imp serial_rarity type_rarity total_moments total_circ)"

subsection \<open>Market trend\<close>

text \<open>A list comprehension whose element expression may raise.\<close>

fun map_err :: "('a \<Rightarrow> error + 'b) \<Rightarrow> 'a list \<Rightarrow> error + 'b list" where
  "map_err f [] = Inr []"
| "map_err f (x # xs) =
     bind_err (f x) (\<lambda>y. bind_err (map_err f xs) (\<lambda>ys. Inr (y # ys)))"

definition py_get :: "pydict \<Rightarrow> string \<Rightarrow> pyval \<Rightarrow> pyval" where
  "py_get d k dflt = (case map_of d k of None \<Rightarrow> dflt | Some v \<Rightarrow> v)"

text \<open>
  The local \<open>price_momentum\<close>: the percentage change from the first to the last of the
  recent prices; dividing by a first price of zero raises.
\<close>

definition price_momentum_of :: "pyval list \<Rightarrow> error + real" where
  "price_momentum_of recent_prices =
     (if length recent_prices \<ge> 2 then
        bind_err (py_num (last recent_prices)) (\<lambda>l.
        bind_err (py_num (hd recent_prices)) (\<lambda>f.
          if f = 0 then Inl ZeroDivisionError
          else Inr (max (-100) (min 100 ((l - f) / f * 100)))))
      else Inr 0)"

definition volume_trend_of :: "pyval list \<Rightarrow> error + real" where
  "volume_trend_of recent_volumes =
     (if length recent_volumes \<ge> 2 then
        bind_err (map_err py_num recent_volumes) (\<lambda>vs.
          if sum_list vs > 0
          then Inr (max (-100) (min 100 ((last vs - hd vs) / max (hd vs) 1 * 100)))
          else Inr 0)
      else Inr 0)"

text \<open>
  The local \<open>market_sentiment\<close>. The mean is a numpy float, so a mean of zero does not
  raise: the quotient is infinite or \<open>nan\<close>, and \<open>max(-1, min(1, \<dots>))\<close> then yields
  \<open>-1\<close> for a negative numerator and \<open>1\<close> otherwise.
\<close>

definition market_sentiment_of :: "real \<Rightarrow> pydict list \<Rightarrow> error + real" where
  "market_sentiment_of price comp_sales =
     (if comp_sales \<noteq> [] then
        bind_err (map_err (\<lambda>sale. py_getitem sale ''price'') comp_sales) (\<lambda>ps.
        bind_err (map_err py_num ps) (\<lambda>prices.
          let avg_comparable_price = np_mean prices
          in if avg_comparable_price = 0 then Inr (if price < 0 then -1 else 1)
             else Inr (max (-1) (min 1 ((price - avg_comparable_price) / avg_comparable_price)))))
      else Inr 0)"

definition calculate_market_trend_factor ::
  "MomentAnalysisRequest \<Rightarrow> pydict list \<Rightarrow> pydict list \<Rightarrow> error + ValuationFactor" where
  "calculate_market_trend_factor moment_request price_hist comp_sales =
     (if price_hist = [] then
        MarketTrendFactor_new ''market_trend'' (factor_weights ''market_trend'') 0.5
          ''No price history available'' 0 0 0 0 []
      else
        bind_err (map_err (\<lambda>p. py_getitem p ''price'') (last_n 10 price_hist)) (\<lambda>recent_prices.
        bind_err (price_momentum_of recent_prices) (\<lambda>momentum.
        bind_err (volume_trend_of (map (\<lambda>p. py_get p ''volume'' (PyInt 0)) (last_n 10 price_hist)))
          (\<lambda>vol_trend.
        bind_err (market_sentiment_of (current_price moment_request) comp_sales) (\<lambda>sentiment.
          let trend_score =
                (momentum + 100) / 2 * 0.4 + (vol_trend + 100) / 2 * 0.3 + (sentiment + 1) * 50 * 0.3;
              imp = (trend_score - 50) * 1.2
          in MarketTrendFactor_new ''market_trend'' (factor_weights ''market_trend'')
               (trend_score / 100) ''Market trend'' imp momentum vol_trend sentiment comp_sales)))))"

subsection \<open>Social sentiment\<close>

text \<open>
  The social data is an optional dictionary read with \<open>get(key, 0)\<close>. \<open>None\<close> and the
  empty dictionary are falsy and are replaced by the default payload; any other dictionary
  is read as it is, a missing key giving 0. Arithmetic on a value that is not a number
  raises \<open>TypeError\<close>.
\<close>

definition default_social_data :: pydict where
  "default_social_data =
     [(''mentions'', PyInt 100), (''sentiment'', PyFloat 0.1), (''viral_score'', PyInt 30),
      (''influencer_mentions'', PyInt 5)]"

text \<open>
  The fields \<open>social_mentions\<close> and \<open>influencer_mentions\<close> are declared \<open>int\<close>: a number
  with a fractional part fails validation.
\<close>

definition int_field :: "real \<Rightarrow> int option" where
  "int_field x = (if x = real_of_int \<lfloor>x\<rfloor> then Some \<lfloor>x\<rfloor> else None)"

definition calculate_social_sentiment_factor ::
  "string \<Rightarrow> pydict option \<Rightarrow> error + ValuationFactor" where
  "calculate_social_sentiment_factor pid social =
     (let sd = (case social of
                  None \<Rightarrow> default_social_data
                | Some d \<Rightarrow> if d = [] then default_social_data else d)
      in bind_err (py_num (py_get sd ''mentions'' (PyInt 0))) (\<lambda>ment.
         bind_err (py_num (py_get sd ''sentiment'' (PyInt 0))) (\<lambda>sent.
         bind_err (py_num (py_get sd ''viral_score'' (PyInt 0))) (\<lambda>viral.
         bind_err (py_num (py_get sd ''influencer_mentions'' (PyInt 0))) (\<lambda>infl.
           let mentions_score = min 100 (log 10 (max 1 ment) * 20);
               sent_score = (sent + 1) * 50;
               social_score =
                 mentions_score * 0.3 + sent_score * 0.4 + viral * 0.2
                 + min 100 (infl * 10) * 0.1;
               imp = (social_score - 50) * 0.8
           in case (int_field ment, int_field infl) of
                (Some m, Some i) \<Rightarrow>
                  SocialSentimentFactor_new ''social_sentiment''
                    (factor_weights ''social_sentiment'') (social_score / 100)
                    ''Social sentiment'' imp m sent viral i
              | _ \<Rightarrow> Inl ValidationError)))))"

subsection \<open>Fair value\<close>

text \<open>The loop that accumulates \<open>total_impact\<close> and \<open>total_weight\<close>.\<close>

fun accumulate_impact :: "ValuationFactor list \<Rightarrow> real \<times> real \<Rightarrow> real \<times> real" where
  "accumulate_impact [] acc = acc"
| "accumulate_impact (factor # fs) (total_impact, total_weight) =
     accumulate_impact fs
       (total_impact + impact factor * weight factor, total_weight + weight factor)"

definition calculate_fair_value :: "ValuationFactor list \<Rightarrow> real \<Rightarrow> real \<times> real" where
  "calculate_fair_value fs base_price =
     (let (total_impact, total_weight) = accumulate_impact fs (0, 0);
          avg_impact = (if total_weight > 0 then total_impact / total_weight else 0);
          impact_multiplier = 1 + avg_impact / 100;
          fv = base_price * impact_multiplier;
          factor_values = map fvalue fs;
          confidence =
            (if length factor_values > 1
             then max 0.3 (min 1.0 (1 - np_std factor_values))
             else 0.5)
      in (fv, confidence))"

subsection \<open>Performance factor, recommendation and the complete analysis\<close>

text \<open>
  \<open>MomentValuator._create_performance_factor\<close>. It passes the three scores, which are
  floats, for \<open>recent_games_performance\<close>, \<open>season_performance\<close> and
  \<open>career_trajectory\<close>.
\<close>

definition MomentValuator_create_performance_factor ::
  "PlayerPerformanceMetrics \<Rightarrow> error + ValuationFactor" where
  "MomentValuator_create_performance_factor pm =
     (let overall_score =
            recent_form_score pm * 0.4 + season_consistency pm * 0.3 + clutch_performance pm * 0.3;
          imp = (overall_score - 50) * 1.5
      in PlayerPerformanceFactor_new ''player_performance'' (factor_weights ''player_performance'')
           (overall_score / 100) ''Player performance'' imp
           (PyFloat (recent_form_score pm)) (PyFloat (season_consistency pm))
           (PyFloat (breakout_potential pm)) (clutch_performance pm))"

text \<open>
  The steps of \<open>analyze_moment\<close> that determine the recommendation and create the
  valuation: \<open>price_ratio\<close> is the fair value divided by the current price of the
  request, the \<open>if\<close>/\<open>elif\<close> chain on it chooses the label, and the \<open>MomentValuation\<close>
  is built from them. The result is the ratio and the valuation.
\<close>

definition create_valuation ::
  "MomentAnalysisRequest \<Rightarrow> real \<Rightarrow> real \<Rightarrow> int \<Rightarrow> error + real \<times> MomentValuation" where
  "create_valuation moment_request fv conf now =
     (if current_price moment_request = 0 then Inl ZeroDivisionError
      else
        let price_ratio = fv / current_price moment_request;
            label =
              (if price_ratio > 1.2 then ''Strong Buy''
               else if price_ratio > 1.05 then ''Buy''
               else if price_ratio > 0.95 then ''Hold''
               else if price_ratio > 0.8 then ''Sell''
               else ''Strong Sell'')
        in bind_err (MomentValuation_new
                       \<lparr> mv_moment_id = moment_id moment_request, mv_fair_value = fv,
                         mv_confidence_score = conf, price_range_low = fv * 0.85,
                         price_range_high = fv * 1.15, recommendation = label,
                         analysis_timestamp = now \<rparr>)
             (\<lambda>val. Inr (price_ratio, val)))"

fun factor_recommendations :: "ValuationFactor list \<Rightarrow> recommendation_text list" where
  "factor_recommendations [] = []"
| "factor_recommendations (f # fs) =
     (if impact f > 20 then [PositiveFactor (factor_type f) (description f)]
      else if impact f < -20 then [NegativeFactor (factor_type f) (description f)]
      else []) @ factor_recommendations fs"

definition generate_recommendations ::
  "MomentAnalysisRequest \<Rightarrow> MomentValuation \<Rightarrow> ValuationFactor list
     \<Rightarrow> error + recommendation_text list" where
  "generate_recommendations moment_request val fs =
     (if current_price moment_request = 0 then Inl ZeroDivisionError
      else
        let price_ratio = mv_fair_value val / current_price moment_request;
            price_recs =
              (if price_ratio > 1.2
               then [StrongBuyOpportunity (mv_fair_value val) (current_price moment_request)]
               else if price_ratio < 0.8
               then [ConsiderSelling (current_price moment_request) (mv_fair_value val)]
               else []);
            confidence_recs =
              (if mv_confidence_score val < 0.5 then [LowConfidence]
               else if mv_confidence_score val > 0.8 then [HighConfidence]
               else [])
        in Inr (price_recs @ factor_recommendations fs @ confidence_recs))"

text \<open>The market data is a dictionary read with \<open>get(key, default)\<close>.\<close>

record market_data =
  total_moments_for_player :: "int option"
  total_circulation :: "int option"
  price_history :: "pydict list option"
  comparable_sales :: "pydict list option"
  volatility :: "real option"
  liquidity_risk :: "real option"

definition empty_market_data :: market_data where
  "empty_market_data =
     \<lparr> total_moments_for_player = None, total_circulation = None, price_history = None,
       comparable_sales = None, volatility = None, liquidity_risk = None \<rparr>"

text \<open>The method \<open>dict()\<close> of the two models that \<open>analyze_moment\<close> stores in its result.\<close>

definition PlayerPerformanceMetrics_dict :: "PlayerPerformanceMetrics \<Rightarrow> pydict" where
  "PlayerPerformanceMetrics_dict m =
     [(''player_id'', PyStr (pm_player_id m)), (''evaluation_date'', PyInt (evaluation_date m)),
      (''recent_form_score'', PyFloat (recent_form_score m)),
      (''season_consistency'', PyFloat (season_consistency m)),
      (''clutch_performance'', PyFloat (clutch_performance m)),
      (''injury_risk'', PyFloat (injury_risk m)),
      (''market_momentum'', PyFloat (market_momentum m)),
      (''breakout_potential'', PyFloat (breakout_potential m)),
      (''veteran_stability'', PyFloat (veteran_stability m))]"

fun factor_details_dict :: "factor_details \<Rightarrow> pydict" where
  "factor_details_dict (PlayerPerformanceDetails rg sp ct cp) =
     [(''recent_games_performance'', PyDict rg), (''season_performance'', PyDict sp),
      (''career_trajectory'', ct), (''clutch_performance'', PyFloat cp)]"
| "factor_details_dict (ScarcityDetails sr tr pc tc) =
     [(''serial_number_rarity'', PyFloat sr), (''moment_type_rarity'', PyFloat tr),
      (''player_moment_count'', PyInt pc), (''total_circulation'', PyInt tc)]"
| "factor_details_dict (MarketTrendDetails pmo vt ms cs) =
     [(''price_momentum'', PyFloat pmo), (''volume_trend'', PyFloat vt),
      (''market_sentiment'', PyFloat ms), (''comparable_sales'', PyList (map PyDict cs))]"
| "factor_details_dict (SocialSentimentDetails sm ss vp im) =
     [(''social_mentions'', PyInt sm), (''sentiment_score'', PyFloat ss),
      (''viral_potential'', PyFloat vp), (''influencer_mentions'', PyInt im)]"

definition ValuationFactor_dict :: "ValuationFactor \<Rightarrow> pydict" where
  "ValuationFactor_dict f =
     [(''factor_type'', PyStr (factor_type f)), (''weight'', PyFloat (weight f)),
      (''value'', PyFloat (fvalue f)), (''description'', PyStr (description f)),
      (''impact'', PyFloat (impact f))] @ factor_details_dict (details f)"

text \<open>
  \<open>analyze_moment\<close>. The four factors are built in the order of the source, and the first
  exception ends the analysis. The final constructor call passes neither \<open>player_id\<close> nor
  \<open>timestamp\<close>, and passes the \<open>MomentValuation\<close> as \<open>valuation\<close>.
\<close>

definition analyze_moment ::
  "MomentAnalysisRequest \<Rightarrow> PlayerPerformanceMetrics \<Rightarrow> market_data \<Rightarrow> pydict option \<Rightarrow> int
     \<Rightarrow> error + MomentAnalysisResult" where
  "analyze_moment moment_request player_performance md social now =
     bind_err (MomentValuator_create_performance_factor player_performance) (\<lambda>performance_factor.
     bind_err (calculate_scarcity_factor moment_request
                 (case total_moments_for_player md of None \<Rightarrow> 50 | Some n \<Rightarrow> n)
                 (case total_circulation md of None \<Rightarrow> 1000 | Some n \<Rightarrow> n)) (\<lambda>scarcity_factor.
     bind_err (calculate_market_trend_factor moment_request
                 (case price_history md of None \<Rightarrow> [] | Some h \<Rightarrow> h)
                 (case comparable_sales md of None \<Rightarrow> [] | Some c \<Rightarrow> c)) (\<lambda>market_factor.
     bind_err (calculate_social_sentiment_factor (player_id moment_request) social)
       (\<lambda>sentiment_factor.
       let fs = [performance_factor, scarcity_factor, market_factor, sentiment_factor];
           (fv, confidence) = calculate_fair_value fs (current_price moment_request)
       in bind_err (create_valuation moment_request fv confidence now) (\<lambda>(price_ratio, val).
          bind_err (generate_recommendations moment_request val fs) (\<lambda>recs.
            MomentAnalysisResult_new (moment_id moment_request) None (AsMomentValuation val) fs
              [(''performance_metrics'', PyDict (PlayerPerformanceMetrics_dict player_performance)),
               (''recent_form'', PyFloat (recent_form_score player_performance)),
               (''consistency'', PyFloat (season_consistency player_performance))]
              [(''current_price'', PyFloat (current_price moment_request)),
               (''fair_value'', PyFloat fv), (''price_ratio'', PyFloat price_ratio),
               (''market_trend'', PyDict (ValuationFactor_dict market_factor))]
              [(''confidence'', PyFloat confidence),
               (''price_volatility'',
                  PyFloat (case volatility md of None \<Rightarrow> 0.2 | Some v \<Rightarrow> v)),
               (''liquidity_risk'',
                  PyFloat (case liquidity_risk md of None \<Rightarrow> 0.3 | Some v \<Rightarrow> v))]
              None recs
              [(''analysis_timestamp'', PyInt now), (''model_version'', PyStr ''1.0''),
               (''factors_count'', PyInt (int (length fs)))]))))))"

text \<open>
  \<open>batch_analyze_moments\<close>. The body of the loop is inside \<open>try\<close> \<open>except Exception\<close>:
  an item whose analysis raises is skipped, and so is an item whose player has no entry in
  \<open>player_performances\<close>. The social data is not passed on.
\<close>

fun batch_analyze_moments ::
  "MomentAnalysisRequest list \<Rightarrow> (string \<rightharpoonup> PlayerPerformanceMetrics) \<Rightarrow> (string \<rightharpoonup> market_data)
     \<Rightarrow> int \<Rightarrow> MomentAnalysisResult list" where
  "batch_analyze_moments [] player_performances mds now = []"
| "batch_analyze_moments (moment_request # rest) player_performances mds now =
     (case player_performances (player_id moment_request) of
        None \<Rightarrow> batch_analyze_moments rest player_performances mds now
      | Some player_perf \<Rightarrow>
          (case analyze_moment moment_request player_perf
                  (case mds (moment_id moment_request) of
                     None \<Rightarrow> empty_market_data | Some m \<Rightarrow> m)
                  None now of
             Inl e \<Rightarrow> batch_analyze_moments rest player_performances mds now
           | Inr result \<Rightarrow> result # batch_analyze_moments rest player_performances mds now))"

subsection \<open>Undervalued moments\<close>

text \<open>The key of the filter and of the sort: \<open>fair_value / market_analysis['current_price']\<close>.\<close>

definition upside_ratio :: "MomentAnalysisResult \<Rightarrow> error + real" where
  "upside_ratio r =
     bind_err (py_getitem (market_analysis r) ''current_price'') (\<lambda>p.
     bind_err (py_num p) (\<lambda>price.
       if price = 0 then Inl ZeroDivisionError else Inr (fair_value (valuation r) / price)))"

text \<open>The filter loop; \<open>and\<close> evaluates the ratio only when the confidence test passed.\<close>

fun undervalued_filter ::
  "MomentAnalysisResult list \<Rightarrow> real \<Rightarrow> real \<Rightarrow> error + MomentAnalysisResult list" where
  "undervalued_filter [] min_confidence min_upside = Inr []"
| "undervalued_filter (r # rs) min_confidence min_upside =
     (if confidence_score (valuation r) \<ge> min_confidence then
        bind_err (upside_ratio r) (\<lambda>ratio.
        bind_err (undervalued_filter rs min_confidence min_upside) (\<lambda>out.
          Inr (if ratio > 1 + min_upside then r # out else out)))
      else undervalued_filter rs min_confidence min_upside)"

text \<open>
  \<open>list.sort(key=\<dots>, reverse=True)\<close> computes the key of every element, then sorts
  descending and keeps the order of elements with equal keys: a stable ascending sort on
  the negated key.
\<close>

definition get_undervalued_moments ::
  "MomentAnalysisResult list \<Rightarrow> real \<Rightarrow> real \<Rightarrow> error + MomentAnalysisResult list" where
  "get_undervalued_moments analysis_results min_confidence min_upside =
     bind_err (undervalued_filter analysis_results min_confidence min_upside) (\<lambda>undervalued.
     bind_err (map_err upside_ratio undervalued) (\<lambda>keys.
       Inr (map snd (sort_key (\<lambda>kr. - fst kr) (zip keys undervalued)))))"

section \<open>Reasoning models (models/reasoning.py)\<close>













section \<open>The database client (data\_sources/database\_client.py)\<close>











section \<open>ReasoningService: persistence (services/reasoning\_service.py)\<close>











section \<open>Reference definitions and example data\<close>

text \<open>\<open>clamp(x, lo, hi)\<close> and the weighted average impact, as the specification words them.\<close>

definition clamp :: "real \<Rightarrow> real \<Rightarrow> real \<Rightarrow> real" where
  "clamp x lo hi = max lo (min hi x)"

definition weighted_average_impact :: "ValuationFactor list \<Rightarrow> real" where
  "weighted_average_impact fs = (\<Sum>f\<leftarrow>fs. impact f * weight f) / (\<Sum>f\<leftarrow>fs. weight f)"

text \<open>The \<open>n\<close> games with the latest dates.\<close>

definition most_recent :: "nat \<Rightarrow> GameStats list \<Rightarrow> GameStats list" where
  "most_recent n games = take n (sort_key (\<lambda>g. - gs_game_date g) games)"

text \<open>
  A full game (36 minutes) on day \<open>day\<close> with the given points, rebounds and assists, all
  points from free throws, and \<open>fga\<close> missed field goals.
\<close>

definition example_game :: "int \<Rightarrow> int \<Rightarrow> int \<Rightarrow> int \<Rightarrow> int \<Rightarrow> int option \<Rightarrow> GameStats" where
  "example_game day pts reb ast fga pm =
     \<lparr> game_id = ''game'', gs_player_id = ''player_123'', gs_game_date = day, opponent = ''LAL'',
       minutes_played = 36, points = pts, rebounds = reb, assists = ast, steals = 0, blocks = 0,
       turnovers = 0, field_goals_made = 0, field_goals_attempted = fga,
       three_pointers_made = 0, three_pointers_attempted = 0, free_throws_made = pts,
       free_throws_attempted = pts, personal_fouls = 0, plus_minus = pm \<rparr>"

text \<open>A scoreless game with ten missed shots.\<close>

definition cold_game :: GameStats where
  "cold_game = example_game 1 0 0 0 10 None"

text \<open>Six games, the most recent first, as the game log delivers them.\<close>

definition six_games :: "GameStats list" where
  "six_games =
     [example_game 6 30 5 5 0 None, example_game 5 10 5 5 0 None, example_game 4 10 5 5 0 None,
      example_game 3 10 5 5 0 None, example_game 2 10 5 5 0 None, example_game 1 10 5 5 0 None]"

definition example_factor :: "real \<Rightarrow> real \<Rightarrow> real \<Rightarrow> ValuationFactor" where
  "example_factor w v i =
     \<lparr> factor_type = ''market_trend'', weight = w, fvalue = v, description = ''Market trend'',
       impact = i, details = MarketTrendDetails 0 0 0 [] \<rparr>"

definition example_result :: "string \<Rightarrow> real \<Rightarrow> real \<Rightarrow> real \<Rightarrow> MomentAnalysisResult" where
  "example_result mid fv conf price =
     \<lparr> mar_moment_id = mid, mar_player_id = ''player_456'',
       valuation = \<lparr> fair_value = fv, confidence_score = conf, vr_recommendation = ''Buy'',
                     upside_potential = 0, risk_score = 0 \<rparr>,
       factors = [], player_analysis = [],
       market_analysis = [(''current_price'', PyFloat price)],
       risk_assessment = [], timestamp = 0, recommendations = [], analysis_metadata = [] \<rparr>"

definition example_request :: "string \<Rightarrow> string \<Rightarrow> MomentAnalysisRequest" where
  "example_request mid pid =
     \<lparr> moment_id = mid, player_id = pid, moment_type = DUNK, game_date = 0, serial_number = 42,
       current_price = 150, marketplace_id = ''topshot'' \<rparr>"

definition example_metrics :: "string \<Rightarrow> PlayerPerformanceMetrics" where
  "example_metrics pid =
     \<lparr> pm_player_id = pid, evaluation_date = 0, recent_form_score = 75, season_consistency = 68,
       clutch_performance = 82, injury_risk = 25, market_momentum = 60, breakout_potential = 45,
       veteran_stability = 70 \<rparr>"

text \<open>A batch of three requests; the player of the second has no performance data.\<close>

definition three_requests :: "MomentAnalysisRequest list" where
  "three_requests =
     [example_request ''moment_1'' ''player_1'', example_request ''moment_2'' ''player_2'',
      example_request ''moment_3'' ''player_3'']"

definition two_performances :: "string \<rightharpoonup> PlayerPerformanceMetrics" where
  "two_performances =
     map_of [(''player_1'', example_metrics ''player_1''), (''player_3'', example_metrics ''player_3'')]"

definition example_season :: SeasonStats where
  "example_season =
     \<lparr> ss_player_id = ''player_123'', season = ''2023-24'', team = ''BOS'', ss_position = PG,
       games_played = 65, games_started = 60, minutes_per_game = 34.5, points_per_game = 22.3,
       rebounds_per_game = 6.8, assists_per_game = 7.2, steals_per_game = 1.5,
       blocks_per_game = 0.8, turnovers_per_game = 3.1, field_goal_percentage = 0.485,
       three_point_percentage = 0.375, free_throw_percentage = 0.85,
       player_efficiency_rating = 18.5, true_shooting_percentage = 0.58, usage_rate = 0.285 \<rparr>"

definition example_profile :: player_profile where
  "example_profile =
     \<lparr> profile_player_id = Some ''player_123'', years_pro = Some 4, profile_position = Some ''PG'' \<rparr>"






section \<open>Verified properties\<close>

subsection \<open>Shared lemmas\<close>

lemma map_err_Inr_iff:
  "map_err f xs = Inr ys \<longleftrightarrow> list_all2 (\<lambda>x y. f x = Inr y) xs ys"
proof (induction xs arbitrary: ys)
  case Nil
  then show ?case by auto
next
  case (Cons x xs)
  show ?case
  proof (cases "f x")
    case (Inl e)
    then show ?thesis by (auto simp add: bind_err_def list_all2_Cons1)
  next
    case (Inr y)
    then show ?thesis
      using Cons.IH
      by (cases "map_err f xs") (auto simp add: bind_err_def list_all2_Cons1)
  qed
qed

lemma create_performance_factor_fails:
  "MomentValuator_create_performance_factor pm = Inl ValidationError"
  by (simp add: MomentValuator_create_performance_factor_def PlayerPerformanceFactor_new_def Let_def)

lemma moment_type_rarity_ge_50: "50 \<le> moment_type_rarity_of t"
  by (cases t) (simp_all add: moment_type_rarity_of_def moment_type_scores_def)

lemma scarcity_factor_fails: "calculate_scarcity_factor r n c = Inl ValidationError"
  using moment_type_rarity_ge_50 [of "moment_type r"]
  by (simp add: calculate_scarcity_factor_def ScarcityFactor_new_def Let_def in_range_def)

lemma analyze_moment_fails: "analyze_moment r pm md sd now = Inl ValidationError"
  by (simp add: analyze_moment_def bind_err_def create_performance_factor_fails)

lemma batch_analyze_moments_empty: "batch_analyze_moments rs perfs mds now = []"
  by (induction rs) (simp_all add: analyze_moment_fails split: option.splits)

subsection \<open>The analysis of a moment never succeeds\<close>

text \<open>
  Claim C1. For every request and every performance metrics, \<open>analyze_moment\<close> raises a
  validation error: the performance factor is built with floats for its dictionary
  fields, and the scarcity factor with a moment-type rarity of at least 50 against the
  bound [0,1]. Hence \<open>batch_analyze_moments\<close>, which skips the items that raise, returns
  the empty list for every batch.
\<close>

theorem analyze_moment_always_raises:
  "analyze_moment r pm md sd now = Inl ValidationError
   \<and> MomentValuator_create_performance_factor pm = Inl ValidationError
   \<and> calculate_scarcity_factor r n c = Inl ValidationError
   \<and> batch_analyze_moments rs perfs mds now = []"
  by (simp add: analyze_moment_fails create_performance_factor_fails scarcity_factor_fails
      batch_analyze_moments_empty)

subsection \<open>Recent form can be negative\<close>

text \<open>
  Claim C2. The composite score of a game is capped at 100 only: for a scoreless game
  with ten missed shots, which is a valid \<open>GameStats\<close>, it is \<open>-25/3\<close>, the recent form
  score of that game alone is \<open>-25/3\<close>, below the range [0,100], and
  \<open>analyze_player_performance\<close> fails on the bound of \<open>recent_form_score\<close>.
\<close>

theorem recent_form_score_negative:
  "GameStats_valid cold_game
   \<and> game_score cold_game = - 25 / 3
   \<and> calculate_recent_form_score [cold_game] None = Inr (- 25 / 3)
   \<and> analyze_player_performance profile season_stats [cold_game] now = Inl ValidationError"
proof -
  have v: "GameStats_valid cold_game"
    by (simp add: GameStats_valid_def cold_game_def example_game_def)
  have g: "game_score cold_game = - 25 / 3"
    by (simp add: game_score_def efficiency_rating_def cold_game_def example_game_def)
  have r: "calculate_recent_form_score [cold_game] None = Inr (- 25 / 3)"
    by (simp add: calculate_recent_form_score_def default_weights_def g)
  have a: "analyze_player_performance profile season_stats [cold_game] now = Inl ValidationError"
    by (simp add: analyze_player_performance_def r PlayerPerformanceMetrics_new_def
        PlayerPerformanceMetrics_valid_def in_range_def)
  from v g r a show ?thesis by simp
qed

subsection \<open>The other scores and the factor values stay in range\<close>

text \<open>
  Apart from the lower bound of the recent form score, the ranges hold: the recent form
  score is at most 100, the five other computed scores lie in [0,100] for valid games,
  and a market-trend or social-sentiment factor that is produced has its value in [0,1]
  and its impact in [-100,100]. For valid games \<open>analyze_player_performance\<close> fails
  exactly when the recent form score is negative.
\<close>

lemma np_mean_bounds:
  assumes "xs \<noteq> []" and "\<forall>x \<in> set xs. lo \<le> x \<and> x \<le> hi"
  shows "lo \<le> np_mean xs \<and> np_mean xs \<le> hi"
proof -
  have n: "0 < real (length xs)" using assms(1) by simp
  have "sum_list (map (\<lambda>x. lo) xs) \<le> sum_list (map (\<lambda>x. x) xs)"
    by (rule sum_list_mono) (use assms(2) in auto)
  then have a: "real (length xs) * lo \<le> sum_list xs"
    by (simp add: sum_list_triv)
  have "sum_list (map (\<lambda>x. x) xs) \<le> sum_list (map (\<lambda>x. hi) xs)"
    by (rule sum_list_mono) (use assms(2) in auto)
  then have b: "sum_list xs \<le> real (length xs) * hi"
    by (simp add: sum_list_triv)
  from a b n show ?thesis
    by (simp add: np_mean_def pos_le_divide_eq pos_divide_le_eq mult.commute)
qed

lemma np_std_nonneg: "0 \<le> np_std xs"
proof -
  have "0 \<le> sum_list (map (\<lambda>x. (x - np_mean xs)\<^sup>2) xs)"
    by (rule sum_list_nonneg) auto
  then show ?thesis
    by (simp add: np_std_def np_mean_def)
qed

lemma coefficient_of_variation_nonneg:
  assumes "\<forall>x \<in> set xs. 0 \<le> x"
  shows "0 \<le> coefficient_of_variation xs"
proof (cases "xs = [] \<or> np_mean xs = 0")
  case True
  then show ?thesis by (auto simp add: coefficient_of_variation_def)
next
  case False
  then have "0 \<le> np_mean xs"
    using np_mean_bounds [of xs 0 "Max (set xs)"] assms by auto
  with False show ?thesis
    by (simp add: coefficient_of_variation_def np_std_nonneg)
qed

lemma calculate_season_consistency_range:
  assumes "\<forall>g \<in> set games. GameStats_valid g"
  shows "in_range 0 100 (calculate_season_consistency s games)"
proof -
  have p: "0 \<le> coefficient_of_variation (map (\<lambda>g. real_of_int (points g)) games)"
    by (rule coefficient_of_variation_nonneg) (use assms in \<open>auto simp add: GameStats_valid_def\<close>)
  have r: "0 \<le> coefficient_of_variation (map (\<lambda>g. real_of_int (rebounds g)) games)"
    by (rule coefficient_of_variation_nonneg) (use assms in \<open>auto simp add: GameStats_valid_def\<close>)
  have a: "0 \<le> coefficient_of_variation (map (\<lambda>g. real_of_int (assists g)) games)"
    by (rule coefficient_of_variation_nonneg) (use assms in \<open>auto simp add: GameStats_valid_def\<close>)
  from p r a show ?thesis
    by (simp add: calculate_season_consistency_def in_range_def Let_def)
qed

lemma clutch_scores_range: "\<forall>x \<in> set (clutch_scores games). 0 \<le> x \<and> x \<le> 100"
  by (induction games) (auto split: option.splits)

lemma calculate_clutch_performance_range: "in_range 0 100 (calculate_clutch_performance games)"
  using np_mean_bounds [OF _ clutch_scores_range, of games]
  by (simp add: calculate_clutch_performance_def in_range_def Let_def)

lemma clamp_0_100: "in_range 0 100 (max 0 (min 100 x))"
  by (simp add: in_range_def)

lemma estimate_injury_risk_range: "in_range 0 100 (estimate_injury_risk p s games)"
  unfolding estimate_injury_risk_def Let_def by (rule clamp_0_100)

lemma calculate_breakout_potential_range: "in_range 0 100 (calculate_breakout_potential p s)"
  unfolding calculate_breakout_potential_def Let_def by (rule clamp_0_100)

lemma calculate_veteran_stability_range: "in_range 0 100 (calculate_veteran_stability p s)"
  unfolding calculate_veteran_stability_def Let_def by (rule clamp_0_100)

lemma game_score_le_100: "game_score g \<le> 100"
  by (simp add: game_score_def Let_def)

lemma weighted_scores_sum:
  assumes "\<forall>w \<in> set ws. 0 \<le> w" and "weighted_scores games ws = Inr scores"
  shows "sum_list scores \<le> 100 * sum_list ws"
  using assms
proof (induction games ws arbitrary: scores rule: weighted_scores.induct)
  case (1 ws)
  then have "0 \<le> sum_list ws" by (simp add: sum_list_nonneg)
  with 1 show ?case by simp
next
  case (2 game games)
  then show ?case by simp
next
  case (3 game games w ws)
  from "3.prems"(2) obtain rest where
    r: "weighted_scores games ws = Inr rest" and s: "scores = game_score game * w # rest"
    by (auto split: sum.splits)
  have "sum_list rest \<le> 100 * sum_list ws"
    using "3.IH" [OF _ r] "3.prems"(1) by simp
  moreover have "game_score game * w \<le> 100 * w"
    using game_score_le_100 [of game] "3.prems"(1) by (simp add: mult_right_mono)
  ultimately show ?case by (simp add: s algebra_simps)
qed

lemma default_weights_positive: "\<forall>w \<in> set (default_weights n). 0 < w"
  by (auto simp add: default_weights_def)

lemma default_weights_sum_positive:
  assumes "0 < n"
  shows "0 < sum_list (default_weights n)"
proof (cases "default_weights n")
  case Nil
  with assms show ?thesis by (simp add: default_weights_def)
next
  case (Cons a list)
  with default_weights_positive [of n]
  have "0 < a" and "0 \<le> sum_list list"
    by (auto intro: sum_list_nonneg simp add: less_imp_le)
  with Cons show ?thesis by simp
qed

lemma recent_form_score_le_100:
  assumes "calculate_recent_form_score games None = Inr s"
  shows "s \<le> 100"
proof (cases "games = []")
  case True
  with assms show ?thesis by (simp add: calculate_recent_form_score_def)
next
  case False
  let ?ws = "default_weights (length games)"
  let ?t = "sum_list ?ws"
  have pos: "0 < ?t"
    using False by (simp add: default_weights_sum_positive)
  from assms False pos obtain scores where
    w: "weighted_scores games (map (\<lambda>w. w / ?t) ?ws) = Inr scores" and s: "s = sum_list scores"
    by (auto simp add: calculate_recent_form_score_def Let_def split: sum.splits)
  have nn: "\<forall>w \<in> set (map (\<lambda>w. w / ?t) ?ws). 0 \<le> w"
    using default_weights_positive [of "length games"] pos by (auto simp add: less_imp_le)
  have "sum_list (map (\<lambda>w. w / ?t) ?ws) = sum_list (map (\<lambda>w. w * inverse ?t) ?ws)"
    by (simp add: divide_inverse)
  also have "\<dots> = ?t * inverse ?t"
    by (simp only: sum_list_mult_const list.map_ident)
  finally have one: "sum_list (map (\<lambda>w. w / ?t) ?ws) = 1" using pos by simp
  from weighted_scores_sum [OF nn w] one s show ?thesis by simp
qed


lemma MarketTrendFactor_new_Inr:
  assumes "MarketTrendFactor_new ft w v d i m vt se sales = Inr f"
  shows "fvalue f = v" and "in_range (-100) 100 (impact f)" and "in_range (-100) 100 m"
    and "in_range (-100) 100 vt" and "in_range (-1) 1 se"
  using assms
  by (auto simp add: MarketTrendFactor_new_def ValuationFactor_base_valid_def split: if_splits)

lemma SocialSentimentFactor_new_Inr:
  assumes "SocialSentimentFactor_new ft w v d i m se vi infl = Inr f"
  shows "fvalue f = v" and "in_range (-100) 100 (impact f)" and "0 \<le> m"
    and "in_range (-1) 1 se" and "in_range 0 100 vi" and "0 \<le> infl"
  using assms
  by (auto simp add: SocialSentimentFactor_new_def ValuationFactor_base_valid_def split: if_splits)

lemma market_trend_factor_bounds:
  assumes "calculate_market_trend_factor r ph cs = Inr f"
  shows "in_range 0 1 (fvalue f) \<and> in_range (-100) 100 (impact f)"
proof (cases "ph = []")
  case True
  with assms have new: "MarketTrendFactor_new ''market_trend'' (factor_weights ''market_trend'') 0.5
          ''No price history available'' 0 0 0 0 [] = Inr f"
    by (simp add: calculate_market_trend_factor_def)
  from MarketTrendFactor_new_Inr(1,2) [OF new] show ?thesis
    by (simp add: in_range_def)
next
  case False
  with assms obtain m vt se where
    new: "MarketTrendFactor_new ''market_trend'' (factor_weights ''market_trend'')
            (((m + 100) / 2 * 0.4 + (vt + 100) / 2 * 0.3 + (se + 1) * 50 * 0.3) / 100)
            ''Market trend''
            ((((m + 100) / 2 * 0.4 + (vt + 100) / 2 * 0.3 + (se + 1) * 50 * 0.3) - 50) * 1.2)
            m vt se cs = Inr f"
    by (auto simp add: calculate_market_trend_factor_def bind_err_def Let_def split: sum.splits)
  note facts = MarketTrendFactor_new_Inr [OF new]
  have m: "-100 \<le> m" "m \<le> 100" and vt: "-100 \<le> vt" "vt \<le> 100" and se: "-1 \<le> se" "se \<le> 1"
    using facts(3,4,5) by (simp_all add: in_range_def)
  have "0 \<le> (m + 100) / 2 * 0.4 + (vt + 100) / 2 * 0.3 + (se + 1) * 50 * 0.3"
    using m vt se by argo
  moreover have "(m + 100) / 2 * 0.4 + (vt + 100) / 2 * 0.3 + (se + 1) * 50 * 0.3 \<le> 100"
    using m vt se by argo
  ultimately have "in_range 0 1 (fvalue f)"
    unfolding facts(1) in_range_def by simp
  with facts(2) show ?thesis by simp
qed

lemma mentions_score_range:
  "0 \<le> min 100 (log 10 (max 1 x) * 20) \<and> min 100 (log 10 (max 1 x) * 20) \<le> 100"
proof -
  have "0 \<le> log 10 (max 1 x)"
    by (simp add: zero_le_log_cancel_iff)
  then show ?thesis by simp
qed

lemma int_field_Some: "int_field x = Some i \<Longrightarrow> x = real_of_int i"
  by (simp add: int_field_def split: if_splits)

lemma social_sentiment_factor_bounds:
  assumes "calculate_social_sentiment_factor pid social = Inr f"
  shows "in_range 0 1 (fvalue f) \<and> in_range (-100) 100 (impact f)"
proof -
  from assms obtain ment se vi infl m i where
    im: "int_field ment = Some m" and ii: "int_field infl = Some i" and
    new: "SocialSentimentFactor_new ''social_sentiment'' (factor_weights ''social_sentiment'')
            ((min 100 (log 10 (max 1 ment) * 20) * 0.3 + (se + 1) * 50 * 0.4 + vi * 0.2
               + min 100 (infl * 10) * 0.1) / 100)
            ''Social sentiment''
            (((min 100 (log 10 (max 1 ment) * 20) * 0.3 + (se + 1) * 50 * 0.4 + vi * 0.2
               + min 100 (infl * 10) * 0.1) - 50) * 0.8)
            m se vi i = Inr f"
    by (auto simp add: calculate_social_sentiment_factor_def bind_err_def Let_def
        split: sum.splits option.splits)
  note facts = SocialSentimentFactor_new_Inr [OF new]
  define ms where "ms = min 100 (log 10 (max 1 ment) * 20)"
  define isc where "isc = min 100 (infl * 10)"
  have ms: "0 \<le> ms" "ms \<le> 100"
    unfolding ms_def using mentions_score_range [of ment] by simp_all
  have "0 \<le> infl"
    using facts(6) int_field_Some [OF ii] by simp
  then have isc: "0 \<le> isc" "isc \<le> 100"
    by (simp_all add: isc_def)
  have se: "-1 \<le> se" "se \<le> 1" and vi: "0 \<le> vi" "vi \<le> 100"
    using facts(4,5) by (simp_all add: in_range_def)
  have v: "fvalue f = (ms * 0.3 + (se + 1) * 50 * 0.4 + vi * 0.2 + isc * 0.1) / 100"
    unfolding ms_def isc_def by (rule facts(1))
  have "0 \<le> ms * 0.3 + (se + 1) * 50 * 0.4 + vi * 0.2 + isc * 0.1"
    using ms isc se vi by argo
  moreover have "ms * 0.3 + (se + 1) * 50 * 0.4 + vi * 0.2 + isc * 0.1 \<le> 100"
    using ms isc se vi by argo
  ultimately have "in_range 0 1 (fvalue f)"
    unfolding v in_range_def by simp
  with facts(2) show ?thesis by simp
qed

lemma weighted_scores_returns:
  "length games \<le> length ws \<Longrightarrow> \<exists>scores. weighted_scores games ws = Inr scores"
  by (induction games ws rule: weighted_scores.induct) auto

lemma recent_form_score_returns:
  "\<exists>x. calculate_recent_form_score games None = Inr x"
proof (cases "games = []")
  case True
  then show ?thesis by (simp add: calculate_recent_form_score_def)
next
  case False
  then have pos: "0 < sum_list (default_weights (length games))"
    by (simp add: default_weights_sum_positive)
  have "length games \<le> length (map (\<lambda>w. w / sum_list (default_weights (length games)))
          (default_weights (length games)))"
    by (simp add: default_weights_def)
  from weighted_scores_returns [OF this] obtain scores where
    "weighted_scores games (map (\<lambda>w. w / sum_list (default_weights (length games)))
          (default_weights (length games))) = Inr scores" by blast
  with False pos show ?thesis
    by (simp add: calculate_recent_form_score_def Let_def)
qed

lemma analyze_player_performance_fails_iff:
  assumes "\<forall>g \<in> set games. GameStats_valid g"
  shows "(\<exists>e. analyze_player_performance p s games now = Inl e)
     \<longleftrightarrow> (\<exists>x. calculate_recent_form_score games None = Inr x \<and> x < 0)"
proof -
  from recent_form_score_returns obtain x where
    x: "calculate_recent_form_score games None = Inr x" by blast
  have le: "x \<le> 100" by (rule recent_form_score_le_100 [OF x])
  have others: "in_range 0 100 (calculate_season_consistency s games)"
    "in_range 0 100 (calculate_clutch_performance games)"
    "in_range 0 100 (estimate_injury_risk p s games)"
    "in_range 0 100 (calculate_breakout_potential p s)"
    "in_range 0 100 (calculate_veteran_stability p s)"
    by (rule calculate_season_consistency_range [OF assms] calculate_clutch_performance_range
        estimate_injury_risk_range calculate_breakout_potential_range
        calculate_veteran_stability_range)+
  show ?thesis
    using le others
    by (auto simp add: analyze_player_performance_def x PlayerPerformanceMetrics_new_def
        PlayerPerformanceMetrics_valid_def in_range_def)
qed

subsection \<open>Fair value and confidence\<close>

lemma accumulate_impact_sums:
  "accumulate_impact fs (a, b) =
     (a + (\<Sum>f\<leftarrow>fs. impact f * weight f), b + (\<Sum>f\<leftarrow>fs. weight f))"
  by (induction fs arbitrary: a b) (simp_all add: algebra_simps)

text \<open>
  Claim C3. For a factor list of positive total weight, \<open>calculate_fair_value\<close> returns
  the base price times \<open>1 + avgImpact/100\<close>, where \<open>avgImpact\<close> is the sum of
  \<open>impact \<times> weight\<close> divided by the sum of the weights, and the confidence
  \<open>clamp(1 - stddev(values), 0.3, 1.0)\<close> for two factors or more, 0.5 otherwise.
\<close>

theorem calculate_fair_value_formula:
  assumes "0 < (\<Sum>f\<leftarrow>fs. weight f)"
  shows "calculate_fair_value fs base_price =
    (base_price * (1 + weighted_average_impact fs / 100),
     if 2 \<le> length fs then clamp (1 - np_std (map fvalue fs)) 0.3 1.0 else 0.5)"
  using assms
  by (auto simp add: calculate_fair_value_def accumulate_impact_sums
      weighted_average_impact_def clamp_def Let_def)

theorem calculate_fair_value_formula_witness:
  "0 < (\<Sum>f\<leftarrow>[example_factor 0.2 0.5 0, example_factor 0.2 0.4 (-8)]. weight f)
   \<and> fst (calculate_fair_value [example_factor 0.2 0.5 0, example_factor 0.2 0.4 (-8)] 100) = 96
   \<and> snd (calculate_fair_value [example_factor 0.2 0.5 0, example_factor 0.2 0.4 (-8)] 100)
       = clamp (1 - np_std [0.5, 0.4]) 0.3 1.0"
  using calculate_fair_value_formula [of "[example_factor 0.2 0.5 0, example_factor 0.2 0.4 (-8)]" 100]
  by (simp add: example_factor_def weighted_average_impact_def)

subsection \<open>Recommendation label of a valuation\<close>

lemma label_chain:
  fixes q :: real
  assumes "l = (if q > 1.2 then ''Strong Buy''
                else if q > 1.05 then ''Buy''
                else if q > 0.95 then ''Hold''
                else if q > 0.8 then ''Sell''
                else ''Strong Sell'')"
  shows "(q > 1.2 \<longrightarrow> l = ''Strong Buy'')
     \<and> (\<not> q > 1.2 \<and> q > 1.05 \<longrightarrow> l = ''Buy'')
     \<and> (\<not> q > 1.05 \<and> q > 0.95 \<longrightarrow> l = ''Hold'')
     \<and> (\<not> q > 0.95 \<and> q > 0.8 \<longrightarrow> l = ''Sell'')
     \<and> (\<not> q > 0.8 \<longrightarrow> l = ''Strong Sell'')"
proof (intro conjI impI)
  assume "q > 1.2"
  then show "l = ''Strong Buy''" by (simp add: assms)
next
  assume "\<not> q > 1.2 \<and> q > 1.05"
  then show "l = ''Buy''" by (simp add: assms)
next
  assume a: "\<not> q > 1.05 \<and> q > 0.95"
  then have "\<not> q > 1.2" by (simp add: power2_eq_square)
  with a show "l = ''Hold''" by (simp add: assms)
next
  assume a: "\<not> q > 0.95 \<and> q > 0.8"
  then have "\<not> q > 1.2" "\<not> q > 1.05" by (simp_all add: power2_eq_square)
  with a show "l = ''Sell''" by (simp add: assms)
next
  assume a: "\<not> q > 0.8"
  then have "\<not> q > 1.2" "\<not> q > 1.05" "\<not> q > 0.95"
    by (simp_all add: power2_eq_square)
  with a show "l = ''Strong Sell''" by (simp add: assms)
qed

text \<open>
  Claim C4. Whenever \<open>analyze_moment\<close> creates a valuation from a fair value and the
  current price of the request, its recommendation label is determined by the ratio of
  the fair value to the current price: above 1.2 Strong Buy, else above 1.05 Buy, else
  above 0.95 Hold, else above 0.8 Sell, else Strong Sell. A valuation is created for every
  positive price, positive fair value and confidence in [0,1]; at a price of 100 the fair
  values 130, 110, 100, 90 and 70, of ratios 1.3, 1.1, 1.0, 0.9 and 0.7, give the five
  labels in this order.
\<close>

theorem recommendation_follows_price_ratio:
  "(\<forall>ratio val. create_valuation req fv conf now = Inr (ratio, val) \<longrightarrow>
      ratio = fv / current_price req \<and> mv_fair_value val = fv
      \<and> (fv / current_price req > 1.2 \<longrightarrow> recommendation val = ''Strong Buy'')
      \<and> (\<not> fv / current_price req > 1.2 \<and> fv / current_price req > 1.05
            \<longrightarrow> recommendation val = ''Buy'')
      \<and> (\<not> fv / current_price req > 1.05 \<and> fv / current_price req > 0.95
            \<longrightarrow> recommendation val = ''Hold'')
      \<and> (\<not> fv / current_price req > 0.95 \<and> fv / current_price req > 0.8
            \<longrightarrow> recommendation val = ''Sell'')
      \<and> (\<not> fv / current_price req > 0.8 \<longrightarrow> recommendation val = ''Strong Sell''))
   \<and> (0 < current_price req \<and> 0 < fv \<and> in_range 0 1 conf \<longrightarrow>
        (\<exists>val. create_valuation req fv conf now = Inr (fv / current_price req, val)))
   \<and> (current_price req = 100 \<and> in_range 0 1 conf \<longrightarrow>
        (\<exists>v1 v2 v3 v4 v5.
           create_valuation req 130 conf now = Inr (1.3, v1) \<and> recommendation v1 = ''Strong Buy''
           \<and> create_valuation req 110 conf now = Inr (1.1, v2) \<and> recommendation v2 = ''Buy''
           \<and> create_valuation req 100 conf now = Inr (1.0, v3) \<and> recommendation v3 = ''Hold''
           \<and> create_valuation req 90 conf now = Inr (0.9, v4) \<and> recommendation v4 = ''Sell''
           \<and> create_valuation req 70 conf now = Inr (0.7, v5)
           \<and> recommendation v5 = ''Strong Sell''))"
proof (intro conjI allI impI)
  fix ratio val
  assume a: "create_valuation req fv conf now = Inr (ratio, val)"
  then have p: "current_price req \<noteq> 0"
    by (auto simp add: create_valuation_def split: if_splits)
  from a p have r: "ratio = fv / current_price req"
    and l: "recommendation val =
        (if fv / current_price req > 1.2 then ''Strong Buy''
         else if fv / current_price req > 1.05 then ''Buy''
         else if fv / current_price req > 0.95 then ''Hold''
         else if fv / current_price req > 0.8 then ''Sell''
         else ''Strong Sell'')"
    and f: "mv_fair_value val = fv"
    by (auto simp add: create_valuation_def Let_def bind_err_def MomentValuation_new_def
        split: if_splits)
  note c = label_chain [OF l]
  show "ratio = fv / current_price req" by (rule r)
  show "mv_fair_value val = fv" by (rule f)
  show "recommendation val = ''Strong Buy''" if "fv / current_price req > 1.2"
    using that c by blast
  show "recommendation val = ''Buy''"
    if "\<not> fv / current_price req > 1.2 \<and> fv / current_price req > 1.05"
    using that c by blast
  show "recommendation val = ''Hold''"
    if "\<not> fv / current_price req > 1.05 \<and> fv / current_price req > 0.95"
    using that c by blast
  show "recommendation val = ''Sell''"
    if "\<not> fv / current_price req > 0.95 \<and> fv / current_price req > 0.8"
    using that c by blast
  show "recommendation val = ''Strong Sell''" if "\<not> fv / current_price req > 0.8"
    using that c by blast
next
  assume "0 < current_price req \<and> 0 < fv \<and> in_range 0 1 conf"
  then show "\<exists>val. create_valuation req fv conf now = Inr (fv / current_price req, val)"
    by (simp add: create_valuation_def Let_def bind_err_def MomentValuation_new_def)
next
  assume "current_price req = 100 \<and> in_range 0 1 conf"
  then show "\<exists>v1 v2 v3 v4 v5.
           create_valuation req 130 conf now = Inr (1.3, v1) \<and> recommendation v1 = ''Strong Buy''
           \<and> create_valuation req 110 conf now = Inr (1.1, v2) \<and> recommendation v2 = ''Buy''
           \<and> create_valuation req 100 conf now = Inr (1.0, v3) \<and> recommendation v3 = ''Hold''
           \<and> create_valuation req 90 conf now = Inr (0.9, v4) \<and> recommendation v4 = ''Sell''
           \<and> create_valuation req 70 conf now = Inr (0.7, v5)
           \<and> recommendation v5 = ''Strong Sell''"
    by (simp add: create_valuation_def Let_def bind_err_def MomentValuation_new_def)
qed

theorem recommendation_follows_price_ratio_witness:
  "0 < current_price (example_request ''moment_1'' ''player_1'') \<and> (0::real) < 195
   \<and> in_range 0 1 0.8
   \<and> (195::real) / current_price (example_request ''moment_1'' ''player_1'') > 1.2
   \<and> (\<exists>val. create_valuation (example_request ''moment_1'' ''player_1'') 195 0.8 0
                = Inr (195 / current_price (example_request ''moment_1'' ''player_1''), val)
             \<and> recommendation val = ''Strong Buy'')
   \<and> current_price ((example_request ''moment_1'' ''player_1'')\<lparr>current_price := 100\<rparr>) = 100
   \<and> (\<exists>v1 v2 v3 v4 v5.
         create_valuation ((example_request ''moment_1'' ''player_1'')\<lparr>current_price := 100\<rparr>)
           130 0.8 0 = Inr (1.3, v1) \<and> recommendation v1 = ''Strong Buy''
         \<and> create_valuation ((example_request ''moment_1'' ''player_1'')\<lparr>current_price := 100\<rparr>)
             110 0.8 0 = Inr (1.1, v2) \<and> recommendation v2 = ''Buy''
         \<and> create_valuation ((example_request ''moment_1'' ''player_1'')\<lparr>current_price := 100\<rparr>)
             100 0.8 0 = Inr (1.0, v3) \<and> recommendation v3 = ''Hold''
         \<and> create_valuation ((example_request ''moment_1'' ''player_1'')\<lparr>current_price := 100\<rparr>)
             90 0.8 0 = Inr (0.9, v4) \<and> recommendation v4 = ''Sell''
         \<and> create_valuation ((example_request ''moment_1'' ''player_1'')\<lparr>current_price := 100\<rparr>)
             70 0.8 0 = Inr (0.7, v5) \<and> recommendation v5 = ''Strong Sell'')"
proof -
  let ?r = "example_request ''moment_1'' ''player_1''"
  have h: "0 < current_price ?r \<and> (0::real) < 195 \<and> in_range 0 1 0.8"
    by (simp add: example_request_def in_range_def)
  have g: "(195::real) / current_price ?r > 1.2"
    by (simp add: example_request_def)
  have k: "current_price (?r\<lparr>current_price := 100\<rparr>) = 100 \<and> in_range 0 1 0.8"
    by (simp add: in_range_def)
  from recommendation_follows_price_ratio [of ?r 195 "0.8" 0] h g
  have a: "\<exists>val. create_valuation ?r 195 0.8 0 = Inr (195 / current_price ?r, val)
             \<and> recommendation val = ''Strong Buy''"
    by blast
  from recommendation_follows_price_ratio [of "?r\<lparr>current_price := 100\<rparr>" 195 "0.8" 0] k
  have b: "\<exists>v1 v2 v3 v4 v5.
         create_valuation (?r\<lparr>current_price := 100\<rparr>) 130 0.8 0 = Inr (1.3, v1)
         \<and> recommendation v1 = ''Strong Buy''
         \<and> create_valuation (?r\<lparr>current_price := 100\<rparr>) 110 0.8 0 = Inr (1.1, v2)
         \<and> recommendation v2 = ''Buy''
         \<and> create_valuation (?r\<lparr>current_price := 100\<rparr>) 100 0.8 0 = Inr (1.0, v3)
         \<and> recommendation v3 = ''Hold''
         \<and> create_valuation (?r\<lparr>current_price := 100\<rparr>) 90 0.8 0 = Inr (0.9, v4)
         \<and> recommendation v4 = ''Sell''
         \<and> create_valuation (?r\<lparr>current_price := 100\<rparr>) 70 0.8 0 = Inr (0.7, v5)
         \<and> recommendation v5 = ''Strong Sell''"
    by blast
  from h g a k b show ?thesis by blast
qed

subsection \<open>Neutral scores\<close>

lemma clutch_scores_no_plus_minus:
  "\<forall>g \<in> set games. plus_minus g = None \<Longrightarrow> clutch_scores games = []"
  by (induction games) simp_all

text \<open>
  Claim C5. The recent form score of the empty game list is 50; the season consistency
  of fewer than five games is 50; the clutch performance of games none of which has a
  plus/minus value is 50.
\<close>

theorem neutral_scores:
  "calculate_recent_form_score [] weights = Inr 50
   \<and> (length games < 5 \<longrightarrow> calculate_season_consistency season_stats games = 50)
   \<and> ((\<forall>g \<in> set games. plus_minus g = None) \<longrightarrow> calculate_clutch_performance games = 50)"
  by (simp add: calculate_recent_form_score_def calculate_season_consistency_def
      calculate_clutch_performance_def clutch_scores_no_plus_minus)

theorem neutral_scores_witness:
  "length [cold_game] < 5 \<and> plus_minus cold_game = None
   \<and> calculate_season_consistency example_season [cold_game] = 50
   \<and> calculate_clutch_performance [cold_game] = 50"
  using neutral_scores [of None "[cold_game]" example_season]
  by (simp add: cold_game_def example_game_def)

subsection \<open>Serial-number rarity\<close>

text \<open>
  Claim C6 as stated fails: the rarity is clamped, so serial numbers 1000 and 2000 both
  have rarity 0, and the lower one is not strictly rarer.
\<close>

theorem serial_rarity_not_strict:
  "(1000::int) < 2000 \<and> \<not> serial_rarity_of 2000 < serial_rarity_of 1000"
  by (simp add: serial_rarity_of_def)

text \<open>
  Claim C6, amended. A lower serial number never has a smaller rarity, and has a strictly
  greater one when the lower number is below 1000 and the higher one above 0; the
  moment-type rarity of a game winner is at least 90.
\<close>

theorem serial_rarity_monotone:
  assumes "s1 < s2"
  shows "serial_rarity_of s2 \<le> serial_rarity_of s1
     \<and> (s1 < 1000 \<and> 0 < s2 \<longrightarrow> serial_rarity_of s2 < serial_rarity_of s1)
     \<and> 90 \<le> moment_type_rarity_of GAME_WINNER"
  using assms
  by (auto simp add: serial_rarity_of_def moment_type_rarity_of_def moment_type_scores_def
      min_def max_def)

theorem serial_rarity_monotone_witness:
  "(1::int) < 42 \<and> (1::int) < 1000 \<and> (0::int) < 42
   \<and> serial_rarity_of 42 \<le> serial_rarity_of 1 \<and> serial_rarity_of 42 < serial_rarity_of 1
   \<and> 90 \<le> moment_type_rarity_of GAME_WINNER"
  using serial_rarity_monotone [of 1 42] by simp

subsection \<open>Undervalued moments\<close>

lemma map_err_decorated:
  "\<forall>kr \<in> set S. f (snd kr) = Inr (fst kr) \<Longrightarrow> map_err f (map snd S) = Inr (map fst S)"
  by (induction S) (simp_all add: bind_err_def)

lemma undervalued_filter_sound:
  "undervalued_filter rs c u = Inr out \<Longrightarrow>
     \<forall>r \<in> set out. r \<in> set rs \<and> c \<le> confidence_score (valuation r)
        \<and> (\<exists>q. upside_ratio r = Inr q \<and> 1 + u < q)"
proof (induction rs arbitrary: out)
  case Nil
  then show ?case by simp
next
  case (Cons r rs)
  show ?case
  proof (cases "c \<le> confidence_score (valuation r)")
    case False
    with Cons show ?thesis by auto
  next
    case True
    with Cons.prems obtain q out' where
      q: "upside_ratio r = Inr q" and o: "undervalued_filter rs c u = Inr out'"
      and out: "out = (if 1 + u < q then r # out' else out')"
      by (auto simp add: bind_err_def split: sum.splits)
    from Cons.IH [OF o] q out True show ?thesis by auto
  qed
qed

lemma undervalued_filter_total:
  "\<forall>r \<in> set rs. c \<le> confidence_score (valuation r) \<longrightarrow> (\<exists>q. upside_ratio r = Inr q) \<Longrightarrow>
     \<exists>out. undervalued_filter rs c u = Inr out"
  by (induction rs) (auto simp add: bind_err_def)

lemma descending_keys:
  fixes S :: "(real \<times> 'a) list"
  shows "sorted (map (\<lambda>kr. - fst kr) S) \<Longrightarrow> sorted_wrt (\<ge>) (map fst S)"
  by (simp add: sorted_map sorted_wrt_map)

lemma get_undervalued_moments_sound:
  assumes "get_undervalued_moments rs c u = Inr out"
  shows "(\<forall>r \<in> set out. r \<in> set rs \<and> c \<le> confidence_score (valuation r)
            \<and> (\<exists>q. upside_ratio r = Inr q \<and> 1 + u < q))
         \<and> (\<exists>keys. map_err upside_ratio out = Inr keys \<and> sorted_wrt (\<ge>) keys)"
proof -
  from assms obtain und keys where
    und: "undervalued_filter rs c u = Inr und" and
    keys: "map_err upside_ratio und = Inr keys" and
    out: "out = map snd (sort_key (\<lambda>kr. - fst kr) (zip keys und))"
    by (auto simp add: get_undervalued_moments_def bind_err_def split: sum.splits)
  let ?S = "sort_key (\<lambda>kr. - fst kr) (zip keys und)"
  from keys have la: "list_all2 (\<lambda>r k. upside_ratio r = Inr k) und keys"
    by (simp add: map_err_Inr_iff)
  then have len: "length keys = length und"
    by (simp add: list_all2_lengthD)
  have dec: "\<forall>kr \<in> set ?S. upside_ratio (snd kr) = Inr (fst kr)"
  proof
    fix kr assume "kr \<in> set ?S"
    then have "kr \<in> set (zip keys und)" by simp
    then obtain i where "i < length und" "kr = (keys ! i, und ! i)"
      using len by (auto simp add: set_zip)
    with la show "upside_ratio (snd kr) = Inr (fst kr)"
      using list_all2_nthD [of "\<lambda>r k. upside_ratio r = Inr k" und keys i] by simp
  qed
  have "set out = snd ` set (zip keys und)"
    by (simp add: out)
  also have "\<dots> = set (map snd (zip keys und))" by simp
  also have "\<dots> = set und" using len by simp
  finally have so: "set out = set und" .
  have k: "map_err upside_ratio out = Inr (map fst ?S)"
    unfolding out by (rule map_err_decorated [OF dec])
  have s: "sorted_wrt (\<ge>) (map fst ?S)"
    by (rule descending_keys) simp
  from undervalued_filter_sound [OF und] so k s show ?thesis by blast
qed

lemma get_undervalued_moments_total:
  assumes "\<forall>r \<in> set rs. c \<le> confidence_score (valuation r) \<longrightarrow> (\<exists>q. upside_ratio r = Inr q)"
  shows "\<exists>out. get_undervalued_moments rs c u = Inr out"
proof -
  from undervalued_filter_total [OF assms] obtain und where
    und: "undervalued_filter rs c u = Inr und" by blast
  have "list_all2 (\<lambda>r k. upside_ratio r = Inr k) und (map (\<lambda>r. projr (upside_ratio r)) und)"
  proof -
    have "\<And>r. r \<in> set und \<Longrightarrow> upside_ratio r = Inr (projr (upside_ratio r))"
      using undervalued_filter_sound [OF und] by fastforce
    then show ?thesis
      by (simp add: list_all2_conv_all_nth)
  qed
  then have "map_err upside_ratio und = Inr (map (\<lambda>r. projr (upside_ratio r)) und)"
    by (simp add: map_err_Inr_iff)
  with und show ?thesis
    by (simp add: get_undervalued_moments_def bind_err_def)
qed

text \<open>
  Claim C7. Whatever list \<open>get_undervalued_moments\<close> returns, each entry is one of the
  analysis results, its confidence is at least the floor, its ratio of fair value to
  current price is defined and strictly above \<open>1 + min_upside\<close>, and the ratios of the
  returned list are in descending order. It does return a list when every result that
  passes the confidence test carries a non-zero numeric \<open>current_price\<close>; otherwise the
  lookup or the division raises.
\<close>

theorem get_undervalued_moments_filtered_sorted:
  "(\<forall>out. get_undervalued_moments rs c u = Inr out \<longrightarrow>
      (\<forall>r \<in> set out. r \<in> set rs \<and> c \<le> confidence_score (valuation r)
          \<and> (\<exists>q. upside_ratio r = Inr q \<and> 1 + u < q))
      \<and> (\<exists>keys. map_err upside_ratio out = Inr keys \<and> sorted_wrt (\<ge>) keys))
   \<and> ((\<forall>r \<in> set rs. c \<le> confidence_score (valuation r) \<longrightarrow> (\<exists>q. upside_ratio r = Inr q))
        \<longrightarrow> (\<exists>out. get_undervalued_moments rs c u = Inr out))"
  using get_undervalued_moments_sound get_undervalued_moments_total by blast

theorem get_undervalued_moments_filtered_sorted_witness:
  "get_undervalued_moments
     [example_result ''a'' 200 0.8 150, example_result ''b'' 120 0.5 100,
      example_result ''c'' 300 0.9 150, example_result ''d'' 105 0.9 100] 0.6 0.1
     = Inr [example_result ''c'' 300 0.9 150, example_result ''a'' 200 0.8 150]
   \<and> 0.6 \<le> confidence_score (valuation (example_result ''c'' 300 0.9 150))
   \<and> upside_ratio (example_result ''c'' 300 0.9 150) = Inr 2 \<and> (1 + 0.1 < (2::real))
   \<and> 0.6 \<le> confidence_score (valuation (example_result ''a'' 200 0.8 150))
   \<and> upside_ratio (example_result ''a'' 200 0.8 150) = Inr (4 / 3) \<and> (1 + 0.1 < (4 / 3 ::real))
   \<and> map_err upside_ratio [example_result ''c'' 300 0.9 150, example_result ''a'' 200 0.8 150]
       = Inr [2, 4 / 3]
   \<and> sorted_wrt (\<ge>) [2, 4 / 3 :: real]"
  using get_undervalued_moments_filtered_sorted
    [of "[example_result ''a'' 200 0.8 150, example_result ''b'' 120 0.5 100,
          example_result ''c'' 300 0.9 150, example_result ''d'' 105 0.9 100]" "0.6" "0.1"]
  by (simp add: get_undervalued_moments_def upside_ratio_def bind_err_def py_getitem_def
      py_num_def example_result_def)

subsection \<open>A batch of three\<close>

text \<open>
  Claim C8. For a batch of three requests of which the first and the third have
  performance data and the second has none, \<open>batch_analyze_moments\<close> returns no result at
  all, not two: the analysis of the first and of the third raises and is skipped too.
\<close>

theorem batch_of_three_returns_nothing:
  "two_performances ''player_1'' \<noteq> None \<and> two_performances ''player_2'' = None
   \<and> two_performances ''player_3'' \<noteq> None
   \<and> batch_analyze_moments three_requests two_performances Map.empty 0 = []
   \<and> length (batch_analyze_moments three_requests two_performances Map.empty 0) \<noteq> 2"
  by (simp add: batch_analyze_moments_empty two_performances_def)

subsection \<open>Prediction of the next game\<close>

lemma predict_next_game_performance_formulas:
  "predict_next_game_performance profile season_stats [] rating =
     \<lparr> predicted_points = Some (points_per_game season_stats),
       predicted_rebounds = rebounds_per_game season_stats,
       predicted_assists = Some (assists_per_game season_stats), confidence = 0.5 \<rparr>"
  "games \<noteq> [] \<Longrightarrow> rating \<noteq> 0 \<Longrightarrow>
   np_mean (map (\<lambda>g. real_of_int (points g)) (last_n 5 games)) \<noteq> 0 \<Longrightarrow>
   predict_next_game_performance profile season_stats games rating =
     \<lparr> predicted_points =
         Some (np_mean (map (\<lambda>g. real_of_int (points g)) (last_n 5 games)) / (rating / 112)),
       predicted_rebounds = np_mean (map (\<lambda>g. real_of_int (rebounds g)) (last_n 5 games)),
       predicted_assists =
         Some (np_mean (map (\<lambda>g. real_of_int (assists g)) (last_n 5 games)) / (rating / 112 * 0.5)),
       confidence =
         max 0.3 (1 - np_std (map (\<lambda>g. real_of_int (points g)) (last_n 10 games))
                       / np_mean (map (\<lambda>g. real_of_int (points g)) (last_n 5 games))) \<rparr>"
  by (simp_all add: predict_next_game_performance_def np_divide_def Let_def)

text \<open>
  Claim C10. The game lists are ordered most recent first. For six games dated 6 down to
  1, with 30 points in the latest game and 10 in each of the others, and an opponent
  rating of 112, the predicted points are 10, the average of the five oldest games; the
  average of the five most recent games is 14.
\<close>

theorem predict_next_game_uses_oldest_games:
  "map gs_game_date six_games = [6, 5, 4, 3, 2, 1]
   \<and> predicted_points (predict_next_game_performance example_profile example_season six_games 112)
       = Some 10
   \<and> np_mean (map (\<lambda>g. real_of_int (points g)) (most_recent 5 six_games)) = 14"
  by (simp add: predict_next_game_performance_def six_games_def example_game_def last_n_def
      np_mean_def np_divide_def most_recent_def Let_def)

subsection \<open>Storing and reloading a reasoning record\<close>


























end
